theory Spec2Isabelle
  imports Complex_Main "HOL-Library.Word"
begin

unbundle bit_operations_syntax

section \<open>The KIM-1 driver state (includes/kim1.h)\<close>

type_synonym u8 = "8 word"
type_synonym u32 = "32 word"
type_synonym u64 = "64 word"
type_synonym offs_t = "32 word"

text \<open>
  The mutable members of \<open>kim1_state\<close>. \<open>m_videoram\<close> is a pointer into the shared
  region \<open>videoram\<close>, so it is a store from offsets to bytes: the handlers index it
  with whatever offset the framework passes, and the framework (not part of these
  sources) decides which offsets those are.
  \<open>m_led_time\<close> is \<open>uint8_t m_led_time[6]\<close>: a list, of length 6 in every state of
  the machine, which the theorems about the digit ages assume of the state they start
  from. All indices the source uses lie in 0..5.
\<close>

record kim1_state =
  m_videoram :: "offs_t \<Rightarrow> u8"
  m_u2_port_b :: u8
  m_311_output :: u8
  m_cassette_high_count :: u32
  m_led_time :: "u8 list"
  m_flipscreen :: u8
  m_madsel_lastcycles :: u64

text \<open>
  What a handler reads from the devices around the driver is a parameter of its model:
  the three keyboard rows (\<open>m_row0->read()\<close> and its siblings return a 32-bit
  \<open>ioport_value\<close>), the port-B output value echoed by the adapter
  (\<open>m_riot2->portb_out_get()\<close>) and the cassette sample (\<open>m_cass->input()\<close>, a
  \<open>double\<close>, taken as a real number).
\<close>

record ioports =
  m_row0 :: u32
  m_row1 :: u32
  m_row2 :: u32

text \<open>
  What a handler sends to the devices around the driver is returned as a list of
  commands, in the order of the calls: \<open>output().set_digit_value(i, v)\<close> and
  \<open>m_cass->output(level)\<close>. The source passes \<open>idx - 4\<close> and \<open>data & 0x7f\<close> as
  \<open>int\<close>; under the guards of the source they lie in 0..5 and 0..127, so a \<open>nat\<close> and
  a byte hold them exactly. The levels are the constants \<open>-1.0\<close> and \<open>1.0\<close>.
\<close>

datatype effect =
    Set_digit_value nat u8
  | Cass_output real

section \<open>Port callbacks of the 6530 U2\<close>

text \<open>
  \<open>kim1_u2_read_a\<close>: \<open>data\<close> starts as \<open>0xff\<close>; the switch on
  \<open>(m_u2_port_b >> 1) & 0x0f\<close> has the cases 0, 1 and 2, each assigning a row read to
  the \<open>uint8_t data\<close> (which keeps the low eight bits). No member is assigned.
\<close>

definition kim1_u2_read_a :: "ioports \<Rightarrow> kim1_state \<Rightarrow> u8 \<times> kim1_state" where
  "kim1_u2_read_a io s =
     (let sel = drop_bit 1 (m_u2_port_b s) AND 0x0f;
          data = (if sel = 0 then ucast (m_row0 io)
                  else if sel = 1 then ucast (m_row1 io)
                  else if sel = 2 then ucast (m_row2 io)
                  else 0xff)
      in (data, s))"

text \<open>\<open>kim1_u2_write_a\<close>: write to the 7-segment LEDs.\<close>

definition kim1_u2_write_a :: "u8 \<Rightarrow> kim1_state \<Rightarrow> effect list \<times> kim1_state" where
  "kim1_u2_write_a data s =
     (let idx = drop_bit 1 (m_u2_port_b s) AND 0x0f
      in if idx \<ge> 4 \<and> idx < 10 then
           (if data AND 0x80 \<noteq> 0 then
              ([Set_digit_value (unat idx - 4) (data AND 0x7f)],
               s\<lparr>m_led_time := (m_led_time s)[unat idx - 4 := 15]\<rparr>)
            else ([], s))
         else ([], s))"

text \<open>\<open>kim1_u2_read_b\<close>: load from cassette. The first argument is \<open>portb_out_get()\<close>.\<close>

definition kim1_u2_read_b :: "u8 \<Rightarrow> kim1_state \<Rightarrow> u8 \<times> kim1_state" where
  "kim1_u2_read_b portb_out s =
     (if portb_out AND 0x20 \<noteq> 0 then (0xFF, s)
      else (0x7F OR (m_311_output s XOR 0x80), s))"

text \<open>\<open>kim1_u2_write_b\<close>: save to cassette.\<close>

definition kim1_u2_write_b :: "u8 \<Rightarrow> kim1_state \<Rightarrow> effect list \<times> kim1_state" where
  "kim1_u2_write_b data s =
     (let s1 = s\<lparr>m_u2_port_b := data\<rparr>
      in if data AND 0x20 \<noteq> 0 then
           ([Cass_output (if data AND 0x80 \<noteq> 0 then - 1 else 1)], s1)
         else ([], s1))"

section \<open>Timer callbacks\<close>

text \<open>
  \<open>kim1_cassette_input\<close>: the two \<open>if\<close> statements of the source, one after the other.
  \<open>m_cassette_high_count\<close> is a \<open>uint32_t\<close>, so \<open>++\<close> wraps at \<open>2 ^ 32\<close>.
\<close>

definition kim1_cassette_input :: "real \<Rightarrow> kim1_state \<Rightarrow> kim1_state" where
  "kim1_cassette_input tap_val s =
     (let s1 = (if tap_val \<le> 0 then
                  (if m_cassette_high_count s \<noteq> 0 then
                     s\<lparr>m_311_output := (if m_cassette_high_count s < 8 then 0x80 else 0),
                       m_cassette_high_count := 0\<rparr>
                   else s)
                else s)
      in if tap_val > 0 then s1\<lparr>m_cassette_high_count := m_cassette_high_count s1 + 1\<rparr>
         else s1)"

text \<open>
  \<open>kim1_update_leds\<close>: the body of the loop for digit \<open>i\<close>, and the loop over
  \<open>i = 0, \<dots>, 5\<close>.
\<close>

definition led_tick_digit :: "nat \<Rightarrow> effect list \<times> kim1_state \<Rightarrow> effect list \<times> kim1_state" where
  "led_tick_digit i = (\<lambda>(out, s).
     if m_led_time s ! i \<noteq> 0 then
       (out, s\<lparr>m_led_time := (m_led_time s)[i := m_led_time s ! i - 1]\<rparr>)
     else (out @ [Set_digit_value i 0], s))"

definition kim1_update_leds :: "kim1_state \<Rightarrow> effect list \<times> kim1_state" where
  "kim1_update_leds s = fold led_tick_digit [0..<6] ([], s)"

section \<open>Machine reset\<close>

text \<open>
  \<open>machine_reset\<close>: the loop clears the six digit ages, then the tone output and the
  run length are cleared. Nothing else is assigned.
\<close>

definition machine_reset :: "kim1_state \<Rightarrow> kim1_state" where
  "machine_reset s =
     (let s1 = fold (\<lambda>i t. t\<lparr>m_led_time := (m_led_time t)[i := 0]\<rparr>) [0..<6] s
      in s1\<lparr>m_311_output := 0, m_cassette_high_count := 0\<rparr>)"

section \<open>Bus handlers of the video window\<close>

text \<open>
  \<open>missile_w\<close> and \<open>missile_r\<close> begin with \<open>if (1==1)\<close> and return inside it: the
  store, respectively the load, of \<open>m_videoram[offset]\<close> is all they execute. The
  statements after it are never reached and have no counterpart here.
\<close>

definition missile_w :: "offs_t \<Rightarrow> u8 \<Rightarrow> kim1_state \<Rightarrow> kim1_state" where
  "missile_w offset data s = s\<lparr>m_videoram := (m_videoram s)(offset := data)\<rparr>"

definition missile_r :: "offs_t \<Rightarrow> kim1_state \<Rightarrow> u8 \<times> kim1_state" where
  "missile_r offset s = (m_videoram s offset, s)"

section \<open>Runs of the machine\<close>

text \<open>
  One constructor for each callback the framework can invoke on the driver, with what
  the callback is given. \<open>step\<close> is the state after it; \<open>run\<close> a sequence of them.
\<close>

datatype kim1_op =
    U2_read_a ioports
  | U2_write_a u8
  | U2_read_b u8
  | U2_write_b u8
  | Cassette_input real
  | Update_leds
  | Machine_reset
  | Missile_w offs_t u8
  | Missile_r offs_t

fun step :: "kim1_op \<Rightarrow> kim1_state \<Rightarrow> kim1_state" where
  "step (U2_read_a io) s = snd (kim1_u2_read_a io s)"
| "step (U2_write_a data) s = snd (kim1_u2_write_a data s)"
| "step (U2_read_b pb) s = snd (kim1_u2_read_b pb s)"
| "step (U2_write_b data) s = snd (kim1_u2_write_b data s)"
| "step (Cassette_input tap_val) s = kim1_cassette_input tap_val s"
| "step Update_leds s = snd (kim1_update_leds s)"
| "step Machine_reset s = machine_reset s"
| "step (Missile_w offset data) s = missile_w offset data s"
| "step (Missile_r offset) s = snd (missile_r offset s)"

fun run :: "kim1_op list \<Rightarrow> kim1_state \<Rightarrow> kim1_state" where
  "run [] s = s"
| "run (e # es) s = run es (step e s)"

text \<open>
  The callbacks left out assign no member of the state: \<open>machine_start\<close> registers the
  save items, \<open>trigger_reset\<close> and \<open>trigger_nmi\<close> drive a line of the CPU, and
  \<open>screen_update_kim1\<close> reads the video buffer.

  \<open>writes_digit d data s\<close>: the port-A write of \<open>data\<close> in state \<open>s\<close> is a display write
  to digit \<open>d\<close>, that is, it calls \<open>set_digit_value\<close> for \<open>d\<close> (and sets the age of \<open>d\<close>).
  \<open>disturbs d e s\<close>: the callback \<open>e\<close>, invoked in state \<open>s\<close>, is a machine reset or a
  display write to digit \<open>d\<close>. \<open>undisturbed d es s\<close>: no callback of the run \<open>es\<close> from
  \<open>s\<close> is one, each taken in the state it is invoked in.
\<close>

definition writes_digit :: "nat \<Rightarrow> u8 \<Rightarrow> kim1_state \<Rightarrow> bool" where
  "writes_digit d data s =
     list_ex (\<lambda>c. case c of Set_digit_value i v \<Rightarrow> i = d | Cass_output l \<Rightarrow> False)
       (fst (kim1_u2_write_a data s))"

fun disturbs :: "nat \<Rightarrow> kim1_op \<Rightarrow> kim1_state \<Rightarrow> bool" where
  "disturbs d Machine_reset s = True"
| "disturbs d (U2_write_a data) s = writes_digit d data s"
| "disturbs d e s = False"

fun undisturbed :: "nat \<Rightarrow> kim1_op list \<Rightarrow> kim1_state \<Rightarrow> bool" where
  "undisturbed d [] s = True"
| "undisturbed d (e # es) s = (\<not> disturbs d e s \<and> undisturbed d es (step e s))"

text \<open>
  The invariant of the digit ages: six counters, each at most 15 (they are unsigned, so at
  least 0).
\<close>

definition led_time_inv :: "kim1_state \<Rightarrow> bool" where
  "led_time_inv s = (length (m_led_time s) = 6 \<and> (\<forall>x \<in> set (m_led_time s). x \<le> 15))"

text \<open>
  A state of the machine and a reading of the keyboard rows for the concrete instances
  below: the state is zero everywhere; in each row one key is held (its bit is low).
\<close>

definition io0 :: ioports where
  "io0 = \<lparr>m_row0 = 0x7E, m_row1 = 0x3F, m_row2 = 0x5F\<rparr>"

definition st0 :: kim1_state where
  "st0 = \<lparr>m_videoram = (\<lambda>_. 0), m_u2_port_b = 0, m_311_output = 0,
          m_cassette_high_count = 0, m_led_time = [0, 0, 0, 0, 0, 0],
          m_flipscreen = 0, m_madsel_lastcycles = 0\<rparr>"

text \<open>
  Two runs for the instances about the LED ticker: callbacks of every kind between the
  ticks, display writes to the digits 0 and 1 and a port-A write with bit 7 clear among
  them, with 2 and with 15 invocations of the ticker.
\<close>

definition ops_two_ticks :: "kim1_op list" where
  "ops_two_ticks =
     [Update_leds, Cassette_input 1, U2_write_b 0x08, U2_write_a 0xFF, Update_leds,
      U2_read_b 0, Missile_w 0 1, U2_write_b 0x0C, U2_write_a 0x39]"

definition ops_fifteen_ticks :: "kim1_op list" where
  "ops_fifteen_ticks =
     ops_two_ticks @
     [Update_leds, Update_leds, Cassette_input 0, Update_leds, Update_leds, Update_leds,
      U2_write_b 0x0A, Update_leds, U2_write_a 0xC0, Update_leds, Update_leds, Update_leds,
      Update_leds, Update_leds, Update_leds, Update_leds]"

section \<open>Bit tests\<close>

text \<open>The masks \<open>0x80\<close> and \<open>0x20\<close> of the source test bit 7 and bit 5.\<close>

lemma bit7_iff: "(data AND 0x80 \<noteq> 0) = bit (data :: u8) 7"
  using and_exp_eq_0_iff_not_bit [of data 7] by simp

lemma bit5_iff: "(data AND 0x20 \<noteq> 0) = bit (data :: u8) 5"
  using and_exp_eq_0_iff_not_bit [of data 5] by simp

section \<open>The cassette sampler\<close>

text \<open>
  Claim C3. One tick of the cassette sampler, for every state and every sample: a sample
  above zero increments the run length and leaves everything else, the tone output
  included, as it was; a sample at or below zero with a nonzero run length sets the tone
  output to \<open>0x80\<close> when the run length is below 8 and to 0 when it is 8 or more, and
  clears the run length in both cases; a sample at or below zero with a zero run length
  changes nothing.
\<close>

theorem kim1_cassette_input_tick:
  "(tap_val > 0 \<longrightarrow>
      kim1_cassette_input tap_val s
        = s\<lparr>m_cassette_high_count := m_cassette_high_count s + 1\<rparr>) \<and>
   (tap_val \<le> 0 \<and> m_cassette_high_count s \<noteq> 0 \<and> m_cassette_high_count s < 8 \<longrightarrow>
      kim1_cassette_input tap_val s = s\<lparr>m_311_output := 0x80, m_cassette_high_count := 0\<rparr>) \<and>
   (tap_val \<le> 0 \<and> m_cassette_high_count s \<noteq> 0 \<and> m_cassette_high_count s \<ge> 8 \<longrightarrow>
      kim1_cassette_input tap_val s = s\<lparr>m_311_output := 0, m_cassette_high_count := 0\<rparr>) \<and>
   (tap_val \<le> 0 \<and> m_cassette_high_count s = 0 \<longrightarrow> kim1_cassette_input tap_val s = s)"
  by (auto simp add: kim1_cassette_input_def Let_def)

theorem kim1_cassette_input_tick_witness:
  "(1/2 :: real) > 0 \<and>
   kim1_cassette_input (1/2) (st0\<lparr>m_311_output := 0x80, m_cassette_high_count := 7\<rparr>)
     = st0\<lparr>m_311_output := 0x80, m_cassette_high_count := 8\<rparr> \<and>
   (- 1/4 :: real) \<le> 0 \<and> (5 :: u32) \<noteq> 0 \<and> (5 :: u32) < 8 \<and>
   kim1_cassette_input (- 1/4) (st0\<lparr>m_cassette_high_count := 5\<rparr>)
     = st0\<lparr>m_311_output := 0x80\<rparr> \<and>
   (0 :: real) \<le> 0 \<and> (10 :: u32) \<noteq> 0 \<and> (10 :: u32) \<ge> 8 \<and>
   kim1_cassette_input 0 (st0\<lparr>m_311_output := 0x80, m_cassette_high_count := 10\<rparr>) = st0 \<and>
   kim1_cassette_input 0 (st0\<lparr>m_311_output := 0x80\<rparr>) = st0\<lparr>m_311_output := 0x80\<rparr>"
  using kim1_cassette_input_tick [of "1/2" "st0\<lparr>m_311_output := 0x80, m_cassette_high_count := 7\<rparr>"]
    kim1_cassette_input_tick [of "- 1/4" "st0\<lparr>m_cassette_high_count := 5\<rparr>"]
    kim1_cassette_input_tick [of 0 "st0\<lparr>m_311_output := 0x80, m_cassette_high_count := 10\<rparr>"]
    kim1_cassette_input_tick [of 0 "st0\<lparr>m_311_output := 0x80\<rparr>"]
  by (simp add: st0_def)

text \<open>
  The two runs of the specification: five samples above zero and one at zero decode to
  \<open>0x80\<close>, ten samples above zero and one at zero decode to 0.
\<close>

lemma cassette_five_high_then_low:
  "m_311_output (run (replicate 5 (Cassette_input 1) @ [Cassette_input 0]) st0) = 0x80"
proof -
  have "replicate 5 (Cassette_input 1) = [Cassette_input 1, Cassette_input 1,
      Cassette_input 1, Cassette_input 1, Cassette_input 1]"
    by (simp add: numeral_eq_Suc)
  then show ?thesis
    by (simp add: kim1_cassette_input_def st0_def)
qed

lemma cassette_ten_high_then_low:
  "m_311_output (run (replicate 10 (Cassette_input 1) @ [Cassette_input 0])
     (st0\<lparr>m_311_output := 0x80\<rparr>)) = 0"
proof -
  have "replicate 10 (Cassette_input 1) = [Cassette_input 1, Cassette_input 1,
      Cassette_input 1, Cassette_input 1, Cassette_input 1, Cassette_input 1,
      Cassette_input 1, Cassette_input 1, Cassette_input 1, Cassette_input 1]"
    by (simp add: numeral_eq_Suc)
  then show ?thesis
    by (simp add: kim1_cassette_input_def st0_def)
qed

section \<open>Port B\<close>

text \<open>
  Claim C4. For every state: when the port-B output value echoed by the adapter has bit 5
  set, the port-B read callback returns \<open>0xFF\<close>; otherwise it returns
  \<open>0x7F | (toneOutput XOR 0x80)\<close>, so that a tone output of 0 yields \<open>0xFF\<close> and a tone
  output of \<open>0x80\<close> yields \<open>0x7F\<close>.
\<close>

theorem kim1_u2_read_b_value:
  "(bit pb 5 \<longrightarrow> fst (kim1_u2_read_b pb s) = 0xFF) \<and>
   (\<not> bit pb 5 \<longrightarrow> fst (kim1_u2_read_b pb s) = 0x7F OR (m_311_output s XOR 0x80)) \<and>
   (\<not> bit pb 5 \<and> m_311_output s = 0 \<longrightarrow> fst (kim1_u2_read_b pb s) = 0xFF) \<and>
   (\<not> bit pb 5 \<and> m_311_output s = 0x80 \<longrightarrow> fst (kim1_u2_read_b pb s) = 0x7F)"
  by (simp add: kim1_u2_read_b_def bit5_iff)

theorem kim1_u2_read_b_value_witness:
  "bit (0x20 :: u8) 5 \<and> fst (kim1_u2_read_b 0x20 (st0\<lparr>m_311_output := 0x80\<rparr>)) = 0xFF \<and>
   \<not> bit (0x5F :: u8) 5 \<and> m_311_output st0 = 0 \<and> fst (kim1_u2_read_b 0x5F st0) = 0xFF \<and>
   m_311_output (st0\<lparr>m_311_output := 0x80\<rparr>) = 0x80 \<and>
   fst (kim1_u2_read_b 0x5F (st0\<lparr>m_311_output := 0x80\<rparr>)) = 0x7F"
  using kim1_u2_read_b_value [of "0x20" "st0\<lparr>m_311_output := 0x80\<rparr>"]
    kim1_u2_read_b_value [of "0x5F" st0]
    kim1_u2_read_b_value [of "0x5F" "st0\<lparr>m_311_output := 0x80\<rparr>"]
  by (simp add: st0_def)

text \<open>
  Claim C7. For every byte \<open>data\<close>, the port-B write callback stores \<open>data\<close> in the port-B
  shadow and changes nothing else of the state; with bit 5 of \<open>data\<close> set it drives the
  cassette output once, to \<open>-1.0\<close> when bit 7 is set and to \<open>+1.0\<close> otherwise; with bit 5
  clear it drives no output.
\<close>

theorem kim1_u2_write_b_effect:
  "snd (kim1_u2_write_b data s) = s\<lparr>m_u2_port_b := data\<rparr> \<and>
   (bit data 5 \<and> bit data 7 \<longrightarrow> fst (kim1_u2_write_b data s) = [Cass_output (- 1)]) \<and>
   (bit data 5 \<and> \<not> bit data 7 \<longrightarrow> fst (kim1_u2_write_b data s) = [Cass_output 1]) \<and>
   (\<not> bit data 5 \<longrightarrow> fst (kim1_u2_write_b data s) = [])"
  by (simp add: kim1_u2_write_b_def bit5_iff bit7_iff Let_def)

theorem kim1_u2_write_b_effect_witness:
  "bit (0xA0 :: u8) 5 \<and> bit (0xA0 :: u8) 7 \<and>
   kim1_u2_write_b 0xA0 st0 = ([Cass_output (- 1)], st0\<lparr>m_u2_port_b := 0xA0\<rparr>) \<and>
   bit (0x20 :: u8) 5 \<and> \<not> bit (0x20 :: u8) 7 \<and>
   kim1_u2_write_b 0x20 st0 = ([Cass_output 1], st0\<lparr>m_u2_port_b := 0x20\<rparr>) \<and>
   \<not> bit (0x88 :: u8) 5 \<and>
   kim1_u2_write_b 0x88 st0 = ([], st0\<lparr>m_u2_port_b := 0x88\<rparr>)"
  using kim1_u2_write_b_effect [of "0xA0" st0] kim1_u2_write_b_effect [of "0x20" st0]
    kim1_u2_write_b_effect [of "0x88" st0]
  by (simp add: prod_eq_iff)

section \<open>The video window\<close>

text \<open>
  Claim C8. For every offset (those of the window \<open>0x4000\<close> to \<open>0x5FFF\<close> among them)
  and every byte \<open>data\<close>: the bus write handler at that offset followed by the bus read
  handler at the same offset returns \<open>data\<close>, and the write changes no cell of the video
  buffer other than the one at that offset. The read leaves the state as the write
  left it.
\<close>

theorem missile_write_read:
  "fst (missile_r offset (missile_w offset data s)) = data \<and>
   (\<forall>a. a \<noteq> offset \<longrightarrow> m_videoram (missile_w offset data s) a = m_videoram s a) \<and>
   snd (missile_r offset (missile_w offset data s)) = missile_w offset data s"
  by (simp add: missile_w_def missile_r_def)

theorem missile_write_read_witness:
  "fst (missile_r 0x4000 (missile_w 0x4000 0xA5 st0)) = 0xA5 \<and>
   (0x5FFF :: offs_t) \<noteq> 0x4000 \<and>
   m_videoram (missile_w 0x4000 0xA5 st0) 0x5FFF = m_videoram st0 0x5FFF"
  using missile_write_read [of "0x4000" "0xA5" st0] by simp

section \<open>Port A: keyboard and display\<close>

text \<open>
  A row read is assigned to a byte, which keeps its low eight bits. The rows are declared
  with the eight bits \<open>0x80\<close> to \<open>0x01\<close>, so a row value is at most \<open>0xFF\<close> and the byte
  is the whole of it.
\<close>

lemma ucast_row_exact: "x \<le> 0xFF \<Longrightarrow> ucast (ucast x :: u8) = (x :: u32)"
  by (simp add: word_le_nat_alt unsigned_ucast_eq word_eq_iff_unsigned [where ?'a = nat]
      unsigned_take_bit_eq take_bit_nat_eq_self)

text \<open>
  Claim C5. For every port-B shadow value, with \<open>rowSelect = (portB >> 1) & 0x0F\<close>: the
  port-A read callback returns the 8-bit input vector of row \<open>rowSelect\<close> when
  \<open>rowSelect\<close> is 0, 1 or 2, and \<open>0xFF\<close> for every other value of \<open>rowSelect\<close>; the
  read leaves the machine state as it was.
\<close>

theorem kim1_u2_read_a_rows:
  assumes "sel = drop_bit 1 (m_u2_port_b s) AND 0x0F"
  shows "(sel = 0 \<longrightarrow> fst (kim1_u2_read_a io s) = ucast (m_row0 io)) \<and>
         (sel = 1 \<longrightarrow> fst (kim1_u2_read_a io s) = ucast (m_row1 io)) \<and>
         (sel = 2 \<longrightarrow> fst (kim1_u2_read_a io s) = ucast (m_row2 io)) \<and>
         (sel \<notin> {0, 1, 2} \<longrightarrow> fst (kim1_u2_read_a io s) = 0xFF) \<and>
         snd (kim1_u2_read_a io s) = s"
  using assms by (simp add: kim1_u2_read_a_def Let_def)

theorem kim1_u2_read_a_rows_witness:
  "kim1_u2_read_a io0 (st0\<lparr>m_u2_port_b := 0x01\<rparr>) = (0x7E, st0\<lparr>m_u2_port_b := 0x01\<rparr>) \<and>
   kim1_u2_read_a io0 (st0\<lparr>m_u2_port_b := 0x22\<rparr>) = (0x3F, st0\<lparr>m_u2_port_b := 0x22\<rparr>) \<and>
   kim1_u2_read_a io0 (st0\<lparr>m_u2_port_b := 0x04\<rparr>) = (0x5F, st0\<lparr>m_u2_port_b := 0x04\<rparr>) \<and>
   kim1_u2_read_a io0 (st0\<lparr>m_u2_port_b := 0x08\<rparr>) = (0xFF, st0\<lparr>m_u2_port_b := 0x08\<rparr>)"
  using kim1_u2_read_a_rows [of 0 "st0\<lparr>m_u2_port_b := 0x01\<rparr>" io0]
    kim1_u2_read_a_rows [of 1 "st0\<lparr>m_u2_port_b := 0x22\<rparr>" io0]
    kim1_u2_read_a_rows [of 2 "st0\<lparr>m_u2_port_b := 0x04\<rparr>" io0]
    kim1_u2_read_a_rows [of 4 "st0\<lparr>m_u2_port_b := 0x08\<rparr>" io0]
  by (simp add: prod_eq_iff io0_def drop_bit_eq_div)

lemma word_lt_10: "(w < 10) = (w \<le> (9::u8))"
  by (auto simp: word_le_nat_alt word_less_nat_alt)

lemma idx_digit: "(4::u8) \<le> idx \<Longrightarrow> idx \<le> 9 \<Longrightarrow> unat idx - 4 < 6"
  by (simp add: word_le_nat_alt)

text \<open>
  Claim C6. For every written byte \<open>data\<close> and every port-B shadow value, with
  \<open>rowSelect = (portB >> 1) & 0x0F\<close>: a port-A write with bit 7 of \<open>data\<close> set and
  \<open>rowSelect\<close> in 4..9 sends \<open>data & 0x7F\<close> to digit \<open>rowSelect - 4\<close> of the display sink
  and sets the age counter of that digit to 15, leaving the other counters and the rest
  of the state alone; a port-A write with bit 7 clear, or with \<open>rowSelect\<close> outside
  4..9, sends nothing to the sink and changes nothing.
\<close>

theorem kim1_u2_write_a_digit:
  assumes "length (m_led_time s) = 6"
    and "idx = drop_bit 1 (m_u2_port_b s) AND 0x0F"
  shows "(bit data 7 \<and> 4 \<le> idx \<and> idx \<le> 9 \<longrightarrow>
            fst (kim1_u2_write_a data s) = [Set_digit_value (unat idx - 4) (data AND 0x7F)] \<and>
            snd (kim1_u2_write_a data s) = s\<lparr>m_led_time := (m_led_time s)[unat idx - 4 := 15]\<rparr> \<and>
            unat idx - 4 < 6 \<and>
            m_led_time (snd (kim1_u2_write_a data s)) ! (unat idx - 4) = 15 \<and>
            (\<forall>j. j \<noteq> unat idx - 4 \<longrightarrow>
                 m_led_time (snd (kim1_u2_write_a data s)) ! j = m_led_time s ! j)) \<and>
         (\<not> bit data 7 \<or> idx < 4 \<or> 9 < idx \<longrightarrow> kim1_u2_write_a data s = ([], s))"
  using assms idx_digit [of idx]
  by (auto simp add: kim1_u2_write_a_def Let_def bit7_iff word_lt_10)

theorem kim1_u2_write_a_digit_witness:
  "length (m_led_time (st0\<lparr>m_u2_port_b := 0x0C\<rparr>)) = 6 \<and>
   (6 :: u8) = drop_bit 1 (m_u2_port_b (st0\<lparr>m_u2_port_b := 0x0C\<rparr>)) AND 0x0F \<and>
   bit (0xB9 :: u8) 7 \<and> (4 :: u8) \<le> 6 \<and> (6 :: u8) \<le> 9 \<and>
   kim1_u2_write_a 0xB9 (st0\<lparr>m_u2_port_b := 0x0C\<rparr>)
     = ([Set_digit_value 2 0x39],
        st0\<lparr>m_u2_port_b := 0x0C, m_led_time := [0, 0, 15, 0, 0, 0]\<rparr>) \<and>
   \<not> bit (0x39 :: u8) 7 \<and>
   kim1_u2_write_a 0x39 (st0\<lparr>m_u2_port_b := 0x0C\<rparr>) = ([], st0\<lparr>m_u2_port_b := 0x0C\<rparr>) \<and>
   (10 :: u8) = drop_bit 1 (m_u2_port_b (st0\<lparr>m_u2_port_b := 0x14\<rparr>)) AND 0x0F \<and>
   (9 :: u8) < 10 \<and>
   kim1_u2_write_a 0xB9 (st0\<lparr>m_u2_port_b := 0x14\<rparr>) = ([], st0\<lparr>m_u2_port_b := 0x14\<rparr>)"
proof -
  let ?s = "st0\<lparr>m_u2_port_b := 0x0C\<rparr>" and ?t = "st0\<lparr>m_u2_port_b := 0x14\<rparr>"
  have l: "length (m_led_time ?s) = 6" "length (m_led_time ?t) = 6"
    by (simp_all add: st0_def)
  have i: "(6 :: u8) = drop_bit 1 (m_u2_port_b ?s) AND 0x0F"
    "(10 :: u8) = drop_bit 1 (m_u2_port_b ?t) AND 0x0F"
    by (simp_all add: drop_bit_eq_div)
  have b: "bit (0xB9 :: u8) 7" "\<not> bit (0x39 :: u8) 7" "(4 :: u8) \<le> 6" "(6 :: u8) \<le> 9"
    "(9 :: u8) < 10"
    by simp_all
  have "kim1_u2_write_a 0xB9 ?s
      = ([Set_digit_value (unat (6 :: u8) - 4) (0xB9 AND 0x7F)],
         ?s\<lparr>m_led_time := (m_led_time ?s)[unat (6 :: u8) - 4 := 15]\<rparr>)"
    using kim1_u2_write_a_digit [OF l(1) i(1), of "0xB9"] b by (simp add: prod_eq_iff)
  then have w1: "kim1_u2_write_a 0xB9 ?s
      = ([Set_digit_value 2 0x39], st0\<lparr>m_u2_port_b := 0x0C, m_led_time := [0, 0, 15, 0, 0, 0]\<rparr>)"
    by (simp add: st0_def)
  have w2: "kim1_u2_write_a 0x39 ?s = ([], ?s)"
    using kim1_u2_write_a_digit [OF l(1) i(1), of "0x39"] b by simp
  have w3: "kim1_u2_write_a 0xB9 ?t = ([], ?t)"
    using kim1_u2_write_a_digit [OF l(2) i(2), of "0xB9"] b by simp
  show ?thesis
    using l(1) i b w1 w2 w3 by blast
qed

section \<open>What the reset clears\<close>

lemma reset_fold_other:
  "fold (\<lambda>i t. t\<lparr>m_led_time := (m_led_time t)[i := 0]\<rparr>) js s
     = s\<lparr>m_led_time := fold (\<lambda>i xs. xs[i := 0]) js (m_led_time s)\<rparr>"
  by (induction js arbitrary: s) simp_all

lemma clear_fold_length: "length (fold (\<lambda>i xs. xs[i := v]) js xs) = length xs"
  by (induction js arbitrary: xs) simp_all

lemma clear_fold_nth:
  "j < length xs \<Longrightarrow> fold (\<lambda>i xs. xs[i := v]) js xs ! j = (if j \<in> set js then v else xs ! j)"
  by (induction js arbitrary: xs) (auto simp: nth_list_update clear_fold_length)

lemma clear_fold_all:
  assumes "length xs = 6"
  shows "fold (\<lambda>i xs. xs[i := v]) [0..<6] xs = replicate 6 v"
proof (rule nth_equalityI)
  show "length (fold (\<lambda>i xs. xs[i := v]) [0..<6] xs) = length (replicate 6 v)"
    using assms by (simp add: clear_fold_length)
next
  fix i assume "i < length (fold (\<lambda>i xs. xs[i := v]) [0..<6] xs)"
  then have "i < 6" using assms by (simp add: clear_fold_length)
  then show "fold (\<lambda>i xs. xs[i := v]) [0..<6] xs ! i = replicate 6 v ! i"
    using assms by (simp add: clear_fold_nth)
qed

lemma machine_reset_eq:
  "length (m_led_time s) = 6 \<Longrightarrow>
   machine_reset s
     = s\<lparr>m_led_time := replicate 6 0, m_311_output := 0, m_cassette_high_count := 0\<rparr>"
  by (simp add: machine_reset_def reset_fold_other clear_fold_all)

lemma replicate_6: "replicate 6 x = [x, x, x, x, x, x]"
  by (simp add: numeral_eq_Suc)

text \<open>
  Claim C1 says that after \<open>machine_reset\<close> the port-B shadow, the tone output, the run
  length and the six digit ages are all zero, for every state before the reset. The
  reset after a port-B write of \<open>0x20\<close> refutes it: \<open>machine_reset\<close> does not assign
  \<open>m_u2_port_b\<close>, which still holds \<open>0x20\<close>.
\<close>

theorem machine_reset_port_b_counterexample:
  "length (m_led_time (snd (kim1_u2_write_b 0x20 st0))) = 6 \<and>
   m_u2_port_b (machine_reset (snd (kim1_u2_write_b 0x20 st0))) = 0x20 \<and>
   \<not> (m_u2_port_b (machine_reset (snd (kim1_u2_write_b 0x20 st0))) = 0 \<and>
      m_311_output (machine_reset (snd (kim1_u2_write_b 0x20 st0))) = 0 \<and>
      m_cassette_high_count (machine_reset (snd (kim1_u2_write_b 0x20 st0))) = 0 \<and>
      m_led_time (machine_reset (snd (kim1_u2_write_b 0x20 st0))) = [0, 0, 0, 0, 0, 0])"
  by (simp add: kim1_u2_write_b_def st0_def machine_reset_eq)

text \<open>
  Claim C1, amended. After \<open>machine_reset\<close> the tone output, the run length and the six
  digit ages are zero, for every state before the reset; the port-B shadow keeps the
  value it had, as does everything else.
\<close>

theorem machine_reset_clears:
  assumes "length (m_led_time s) = 6"
  shows "m_311_output (machine_reset s) = 0 \<and>
         m_cassette_high_count (machine_reset s) = 0 \<and>
         m_led_time (machine_reset s) = [0, 0, 0, 0, 0, 0] \<and>
         m_u2_port_b (machine_reset s) = m_u2_port_b s \<and>
         machine_reset s = s\<lparr>m_led_time := [0, 0, 0, 0, 0, 0], m_311_output := 0,
                              m_cassette_high_count := 0\<rparr>"
  using assms by (simp add: machine_reset_eq replicate_6)

theorem machine_reset_clears_witness:
  "length (m_led_time (st0\<lparr>m_u2_port_b := 0x2A, m_311_output := 0x80,
       m_cassette_high_count := 3, m_led_time := [15, 14, 0, 1, 2, 3]\<rparr>)) = 6 \<and>
   machine_reset (st0\<lparr>m_u2_port_b := 0x2A, m_311_output := 0x80,
       m_cassette_high_count := 3, m_led_time := [15, 14, 0, 1, 2, 3]\<rparr>)
     = st0\<lparr>m_u2_port_b := 0x2A\<rparr>"
  using machine_reset_clears [of "st0\<lparr>m_u2_port_b := 0x2A, m_311_output := 0x80,
       m_cassette_high_count := 3, m_led_time := [15, 14, 0, 1, 2, 3]\<rparr>"]
  by (simp add: st0_def)

section \<open>The LED ticker\<close>

text \<open>One pass of the loop body: what it does to the ages and what it sends.\<close>

lemma led_tick_digit_time:
  "m_led_time (snd (led_tick_digit a (out, s)))
     = (if m_led_time s ! a \<noteq> 0 then (m_led_time s)[a := m_led_time s ! a - 1]
        else m_led_time s)"
  by (simp add: led_tick_digit_def)

lemma led_tick_digit_out:
  "fst (led_tick_digit a (out, s))
     = (if m_led_time s ! a \<noteq> 0 then out else out @ [Set_digit_value a 0])"
  by (simp add: led_tick_digit_def)

lemma led_tick_digit_frame: "\<exists>xs. snd (led_tick_digit a (out, s)) = s\<lparr>m_led_time := xs\<rparr>"
proof (cases "m_led_time s ! a = 0")
  case True
  then have "snd (led_tick_digit a (out, s)) = s\<lparr>m_led_time := m_led_time s\<rparr>"
    by (simp add: led_tick_digit_def)
  then show ?thesis ..
next
  case False
  then have "snd (led_tick_digit a (out, s))
      = s\<lparr>m_led_time := (m_led_time s)[a := m_led_time s ! a - 1]\<rparr>"
    by (simp add: led_tick_digit_def)
  then show ?thesis ..
qed

text \<open>The loop over a list of distinct digits.\<close>

lemma led_fold_frame: "\<exists>xs. snd (fold led_tick_digit js (out, s)) = s\<lparr>m_led_time := xs\<rparr>"
proof (induction js arbitrary: out s)
  case Nil
  have "snd (fold led_tick_digit [] (out, s)) = s\<lparr>m_led_time := m_led_time s\<rparr>" by simp
  then show ?case ..
next
  case (Cons a js)
  obtain out1 s1 where p: "led_tick_digit a (out, s) = (out1, s1)"
    by (cases "led_tick_digit a (out, s)")
  obtain ys where ys: "s1 = s\<lparr>m_led_time := ys\<rparr>"
    using led_tick_digit_frame [of a out s] by (auto simp: p)
  obtain zs where "snd (fold led_tick_digit js (out1, s1)) = s1\<lparr>m_led_time := zs\<rparr>"
    using Cons.IH [of out1 s1] by auto
  then have "snd (fold led_tick_digit (a # js) (out, s)) = s\<lparr>m_led_time := zs\<rparr>"
    by (simp add: p ys)
  then show ?case ..
qed

lemma led_fold_length:
  "length (m_led_time (snd (fold led_tick_digit js (out, s)))) = length (m_led_time s)"
proof (induction js arbitrary: out s)
  case Nil
  show ?case by simp
next
  case (Cons a js)
  obtain out1 s1 where p: "led_tick_digit a (out, s) = (out1, s1)"
    by (cases "led_tick_digit a (out, s)")
  have "length (m_led_time s1) = length (m_led_time s)"
    using led_tick_digit_time [of a out s] by (simp add: p)
  then show ?case using Cons.IH [of out1 s1] by (simp add: p)
qed

lemma led_fold_nth:
  "distinct js \<Longrightarrow>
   m_led_time (snd (fold led_tick_digit js (out, s))) ! j
     = (if j \<in> set js \<and> j < length (m_led_time s) \<and> m_led_time s ! j \<noteq> 0
        then m_led_time s ! j - 1 else m_led_time s ! j)"
proof (induction js arbitrary: out s)
  case Nil
  show ?case by simp
next
  case (Cons a js)
  obtain out1 s1 where p: "led_tick_digit a (out, s) = (out1, s1)"
    by (cases "led_tick_digit a (out, s)")
  have s1: "m_led_time s1
     = (if m_led_time s ! a \<noteq> 0 then (m_led_time s)[a := m_led_time s ! a - 1]
        else m_led_time s)"
    using led_tick_digit_time [of a out s] by (simp add: p)
  have a: "a \<notin> set js" and d: "distinct js" using Cons.prems by simp_all
  have "m_led_time (snd (fold led_tick_digit js (out1, s1))) ! j
     = (if j \<in> set js \<and> j < length (m_led_time s1) \<and> m_led_time s1 ! j \<noteq> 0
        then m_led_time s1 ! j - 1 else m_led_time s1 ! j)"
    by (rule Cons.IH [OF d])
  then show ?case
    using a by (cases "j = a"; cases "a < length (m_led_time s)")
      (auto simp: p s1 nth_list_update list_update_beyond)
qed

lemma led_fold_out:
  "distinct js \<Longrightarrow>
   set (fst (fold led_tick_digit js (out, s)))
     = set out \<union> {Set_digit_value j 0 | j. j \<in> set js \<and> m_led_time s ! j = 0}"
proof (induction js arbitrary: out s)
  case Nil
  show ?case by simp
next
  case (Cons a js)
  obtain out1 s1 where p: "led_tick_digit a (out, s) = (out1, s1)"
    by (cases "led_tick_digit a (out, s)")
  have s1: "m_led_time s1
     = (if m_led_time s ! a \<noteq> 0 then (m_led_time s)[a := m_led_time s ! a - 1]
        else m_led_time s)"
    using led_tick_digit_time [of a out s] by (simp add: p)
  have o1: "out1 = (if m_led_time s ! a \<noteq> 0 then out else out @ [Set_digit_value a 0])"
    using led_tick_digit_out [of a out s] by (simp add: p)
  have a: "a \<notin> set js" and d: "distinct js" using Cons.prems by simp_all
  have same: "m_led_time s1 ! j = m_led_time s ! j" if "j \<in> set js" for j
  proof -
    from that a have "a \<noteq> j" by auto
    then show ?thesis by (simp add: s1)
  qed
  have "set (fst (fold led_tick_digit js (out1, s1)))
     = set out1 \<union> {Set_digit_value j 0 | j. j \<in> set js \<and> m_led_time s1 ! j = 0}"
    by (rule Cons.IH [OF d])
  also have "{Set_digit_value j 0 | j. j \<in> set js \<and> m_led_time s1 ! j = 0}
     = {Set_digit_value j 0 | j. j \<in> set js \<and> m_led_time s ! j = 0}"
    using same by auto
  finally show ?case
    by (auto simp: p o1)
qed

text \<open>The ticker itself: the loop over the digits 0 to 5.\<close>

lemma distinct_upt_6: "distinct [0..<6]"
  by simp

lemma update_leds_frame: "\<exists>xs. snd (kim1_update_leds s) = s\<lparr>m_led_time := xs\<rparr>"
  unfolding kim1_update_leds_def by (rule led_fold_frame)

lemma update_leds_length:
  "length (m_led_time (snd (kim1_update_leds s))) = length (m_led_time s)"
  unfolding kim1_update_leds_def by (rule led_fold_length)

lemma update_leds_nth:
  assumes "length (m_led_time s) = 6" and "d < 6"
  shows "m_led_time (snd (kim1_update_leds s)) ! d
     = (if m_led_time s ! d \<noteq> 0 then m_led_time s ! d - 1 else m_led_time s ! d)"
  using assms led_fold_nth [OF distinct_upt_6, of "[]" s d]
  by (simp add: kim1_update_leds_def)

lemma update_leds_out:
  assumes "d < 6"
  shows "Set_digit_value d v \<in> set (fst (kim1_update_leds s))
     \<longleftrightarrow> v = 0 \<and> m_led_time s ! d = 0"
  using assms led_fold_out [OF distinct_upt_6, of "[]" s]
  by (auto simp add: kim1_update_leds_def)

lemma step_led_time_other:
  "(\<forall>data. e \<noteq> U2_write_a data) \<Longrightarrow> e \<noteq> Update_leds \<Longrightarrow> e \<noteq> Machine_reset \<Longrightarrow>
   m_led_time (step e s) = m_led_time s"
  by (cases e)
    (simp_all add: kim1_u2_read_a_def kim1_u2_read_b_def kim1_u2_write_b_def
      kim1_cassette_input_def missile_w_def missile_r_def Let_def)

text \<open>The callbacks in a run: what each does to the age of a digit it does not disturb.\<close>

lemma step_length: "length (m_led_time (step e s)) = length (m_led_time s)"
  by (cases e)
    (simp_all add: kim1_u2_read_a_def kim1_u2_write_a_def kim1_u2_read_b_def
      kim1_u2_write_b_def kim1_cassette_input_def missile_w_def missile_r_def Let_def
      update_leds_length machine_reset_def reset_fold_other clear_fold_length)

lemma run_length: "length (m_led_time (run es s)) = length (m_led_time s)"
  by (induction es arbitrary: s) (simp_all add: step_length)

lemma write_a_other_digit:
  "\<not> writes_digit d data s \<Longrightarrow>
   m_led_time (snd (kim1_u2_write_a data s)) ! d = m_led_time s ! d"
  by (auto simp add: writes_digit_def kim1_u2_write_a_def Let_def)

lemma writes_digit_age:
  "writes_digit d data s \<Longrightarrow> length (m_led_time s) = 6 \<Longrightarrow>
   d < 6 \<and> m_led_time (snd (kim1_u2_write_a data s)) ! d = 15"
  using idx_digit [of "drop_bit 1 (m_u2_port_b s) AND 0x0f"]
  by (auto simp add: writes_digit_def kim1_u2_write_a_def Let_def word_lt_10 split: if_splits)

lemma step_age:
  assumes "\<not> disturbs d e s" and "length (m_led_time s) = 6" and "d < 6"
  shows "unat (m_led_time (step e s) ! d)
     = unat (m_led_time s ! d) - (if e = Update_leds then 1 else 0)"
proof (cases e)
  case (U2_write_a data)
  then show ?thesis using assms(1) by (simp add: write_a_other_digit)
next
  case Update_leds
  then show ?thesis
    using update_leds_nth [OF assms(2,3)] by (simp add: unat_minus_one unat_eq_0)
next
  case Machine_reset
  then show ?thesis using assms(1) by simp
qed (simp_all add: kim1_u2_read_a_def kim1_u2_read_b_def
      kim1_u2_write_b_def kim1_cassette_input_def missile_w_def missile_r_def Let_def)

lemma run_age:
  assumes "d < 6"
  shows "length (m_led_time s) = 6 \<Longrightarrow> undisturbed d es s \<Longrightarrow>
         unat (m_led_time (run es s) ! d)
           = unat (m_led_time s ! d) - count_list es Update_leds"
proof (induction es arbitrary: s)
  case Nil
  show ?case by simp
next
  case (Cons e es)
  from Cons.prems have nd: "\<not> disturbs d e s" and rest: "undisturbed d es (step e s)"
    by simp_all
  have len: "length (m_led_time (step e s)) = 6"
    using Cons.prems(1) by (simp add: step_length)
  have "unat (m_led_time (run es (step e s)) ! d)
      = unat (m_led_time (step e s) ! d) - count_list es Update_leds"
    by (rule Cons.IH [OF len rest])
  then show ?case
    using step_age [OF nd Cons.prems(1) assms] by simp
qed

lemma update_leds_port_b: "m_u2_port_b (snd (kim1_update_leds s)) = m_u2_port_b s"
  using update_leds_frame [of s] by auto

lemma write_a_port_b: "m_u2_port_b (snd (kim1_u2_write_a data s)) = m_u2_port_b s"
  by (simp add: kim1_u2_write_a_def Let_def)

lemma write_b_port_b: "m_u2_port_b (snd (kim1_u2_write_b data s)) = data"
  by (simp add: kim1_u2_write_b_def Let_def)

lemma writes_digit_iff:
  "writes_digit d data s \<longleftrightarrow>
     bit data 7 \<and> 4 \<le> drop_bit 1 (m_u2_port_b s) AND 0x0F \<and>
     drop_bit 1 (m_u2_port_b s) AND 0x0F \<le> 9 \<and>
     unat (drop_bit 1 (m_u2_port_b s) AND 0x0F) - 4 = d"
  by (auto simp add: writes_digit_def kim1_u2_write_a_def Let_def word_lt_10 bit7_iff)

text \<open>
  Claim C2. Start from a state in which a display write has just set the age of digit
  \<open>d\<close> to 15 (\<open>writes_digit_age\<close>), and let any callbacks follow, in any order, with no
  display write to \<open>d\<close> among them (and no machine reset, which clears the ages). With
  \<open>k\<close> invocations of the LED ticker among them the age of \<open>d\<close> is \<open>15 - k\<close>. So each
  of the first 15 invocations finds the age nonzero, decrements it and sends no command
  for \<open>d\<close>; after the 15th the age is 0; and the 16th invocation sends the blank command
  (segment value 0) for \<open>d\<close> and leaves the age at 0. A tick sends a command for \<open>d\<close>
  exactly when 15 or more ticks went before it, and then it is the blank command.
\<close>

theorem led_blank_on_sixteenth_tick:
  assumes "length (m_led_time s) = 6" and "d < 6" and "m_led_time s ! d = 15"
    and "undisturbed d es s"
  shows "unat (m_led_time (run es s) ! d) = 15 - count_list es Update_leds \<and>
         (count_list es Update_leds < 15 \<longrightarrow>
            m_led_time (run es s) ! d \<noteq> 0 \<and>
            m_led_time (step Update_leds (run es s)) ! d = m_led_time (run es s) ! d - 1 \<and>
            (\<forall>v. Set_digit_value d v \<notin> set (fst (kim1_update_leds (run es s))))) \<and>
         (count_list es Update_leds = 15 \<longrightarrow>
            m_led_time (run es s) ! d = 0 \<and>
            Set_digit_value d 0 \<in> set (fst (kim1_update_leds (run es s))) \<and>
            m_led_time (step Update_leds (run es s)) ! d = 0) \<and>
         (\<forall>v. Set_digit_value d v \<in> set (fst (kim1_update_leds (run es s)))
            \<longleftrightarrow> v = 0 \<and> 15 \<le> count_list es Update_leds)"
proof -
  let ?k = "count_list es Update_leds" and ?t = "run es s"
  have len: "length (m_led_time ?t) = 6"
    using assms(1) by (simp add: run_length)
  have age: "unat (m_led_time ?t ! d) = 15 - ?k"
    using run_age [OF assms(2,1,4)] assms(3) by simp
  have zero: "m_led_time ?t ! d = 0 \<longleftrightarrow> 15 \<le> ?k"
    using age by (auto simp add: unat_eq_0 [symmetric] simp del: unat_eq_0)
  have next_age: "m_led_time (step Update_leds ?t) ! d
      = (if m_led_time ?t ! d \<noteq> 0 then m_led_time ?t ! d - 1 else m_led_time ?t ! d)"
    using update_leds_nth [OF len assms(2)] by simp
  have out: "Set_digit_value d v \<in> set (fst (kim1_update_leds ?t))
      \<longleftrightarrow> v = 0 \<and> 15 \<le> ?k" for v
    using update_leds_out [OF assms(2), of v ?t] zero by simp
  show ?thesis
    using age zero next_age out by auto
qed

theorem led_blank_on_sixteenth_tick_witness:
  "length (m_led_time (snd (kim1_u2_write_a 0xFF (st0\<lparr>m_u2_port_b := 0x0C\<rparr>)))) = 6 \<and>
   (2::nat) < 6 \<and>
   m_led_time (snd (kim1_u2_write_a 0xFF (st0\<lparr>m_u2_port_b := 0x0C\<rparr>))) ! 2 = 15 \<and>
   undisturbed 2 ops_two_ticks (snd (kim1_u2_write_a 0xFF (st0\<lparr>m_u2_port_b := 0x0C\<rparr>))) \<and>
   count_list ops_two_ticks Update_leds = 2 \<and>
   unat (m_led_time (run ops_two_ticks
      (snd (kim1_u2_write_a 0xFF (st0\<lparr>m_u2_port_b := 0x0C\<rparr>)))) ! 2) = 13 \<and>
   Set_digit_value 2 0 \<notin> set (fst (kim1_update_leds (run ops_two_ticks
      (snd (kim1_u2_write_a 0xFF (st0\<lparr>m_u2_port_b := 0x0C\<rparr>)))))) \<and>
   undisturbed 2 ops_fifteen_ticks (snd (kim1_u2_write_a 0xFF (st0\<lparr>m_u2_port_b := 0x0C\<rparr>))) \<and>
   count_list ops_fifteen_ticks Update_leds = 15 \<and>
   m_led_time (run ops_fifteen_ticks
      (snd (kim1_u2_write_a 0xFF (st0\<lparr>m_u2_port_b := 0x0C\<rparr>)))) ! 2 = 0 \<and>
   Set_digit_value 2 0 \<in> set (fst (kim1_update_leds (run ops_fifteen_ticks
      (snd (kim1_u2_write_a 0xFF (st0\<lparr>m_u2_port_b := 0x0C\<rparr>))))))"
proof -
  let ?w = "snd (kim1_u2_write_a 0xFF (st0\<lparr>m_u2_port_b := 0x0C\<rparr>))"
  have w: "?w = st0\<lparr>m_u2_port_b := 0x0C, m_led_time := [0, 0, 15, 0, 0, 0]\<rparr>"
    by (simp add: kim1_u2_write_a_def st0_def drop_bit_eq_div)
  have h1: "length (m_led_time ?w) = 6" and h2: "(2::nat) < 6" and h3: "m_led_time ?w ! 2 = 15"
    unfolding w by (simp_all add: st0_def)
  have u2: "undisturbed 2 ops_two_ticks ?w"
    by (simp add: ops_two_ticks_def writes_digit_iff write_b_port_b drop_bit_eq_div)
  have u15: "undisturbed 2 ops_fifteen_ticks ?w"
    by (simp add: ops_fifteen_ticks_def ops_two_ticks_def writes_digit_iff write_b_port_b
        write_a_port_b update_leds_port_b drop_bit_eq_div)
  have c2: "count_list ops_two_ticks Update_leds = 2"
    by (simp add: ops_two_ticks_def)
  have c15: "count_list ops_fifteen_ticks Update_leds = 15"
    by (simp add: ops_fifteen_ticks_def ops_two_ticks_def)
  show ?thesis
    using led_blank_on_sixteenth_tick [OF h1 h2 h3 u2]
      led_blank_on_sixteenth_tick [OF h1 h2 h3 u15] h1 h3 u2 u15 c2 c15
    by simp
qed

text \<open>
  The reset is left out of these runs because it clears the ages: after one tick and a
  reset, the next tick already blanks the digit.
\<close>

lemma reset_between_ticks_blanks:
  "Set_digit_value 2 0 \<in> set (fst (kim1_update_leds (run [Update_leds, Machine_reset]
     (snd (kim1_u2_write_a 0xFF (st0\<lparr>m_u2_port_b := 0x0C\<rparr>))))))"
proof -
  let ?w = "snd (kim1_u2_write_a 0xFF (st0\<lparr>m_u2_port_b := 0x0C\<rparr>))"
  have "length (m_led_time (snd (kim1_update_leds ?w))) = 6"
    by (simp add: update_leds_length kim1_u2_write_a_def st0_def drop_bit_eq_div)
  then have "m_led_time (run [Update_leds, Machine_reset] ?w) ! 2 = 0"
    by (simp add: machine_reset_eq replicate_6)
  then show ?thesis
    using update_leds_out [of 2 0 "run [Update_leds, Machine_reset] ?w"] by simp
qed

section \<open>Invariants of the reachable states\<close>

lemma led_time_inv_reset:
  "length (m_led_time s) = 6 \<Longrightarrow> led_time_inv (machine_reset s)"
  by (simp add: led_time_inv_def machine_reset_eq)

lemma age_dec_le: "(x :: u8) \<le> 15 \<Longrightarrow> x \<noteq> 0 \<Longrightarrow> x - 1 \<le> 15"
  by (simp add: word_le_nat_alt unat_minus_one)

lemma led_time_inv_write_a: "led_time_inv s \<Longrightarrow> led_time_inv (snd (kim1_u2_write_a data s))"
  using set_update_subset_insert [of "m_led_time s" _ 15]
  by (auto simp add: led_time_inv_def kim1_u2_write_a_def Let_def)

lemma led_time_inv_update_leds:
  assumes "led_time_inv s"
  shows "led_time_inv (snd (kim1_update_leds s))"
proof -
  from assms have len: "length (m_led_time s) = 6"
    and old: "\<And>i. i < 6 \<Longrightarrow> m_led_time s ! i \<le> 15"
    by (simp_all add: led_time_inv_def)
  have "m_led_time (snd (kim1_update_leds s)) ! i \<le> 15" if "i < 6" for i
    using update_leds_nth [OF len that] old [OF that] by (simp add: age_dec_le)
  then show ?thesis
    using len by (simp add: led_time_inv_def update_leds_length all_set_conv_all_nth)
qed

lemma led_time_inv_step: "led_time_inv s \<Longrightarrow> led_time_inv (step e s)"
proof (cases e)
  case (U2_write_a data)
  assume "led_time_inv s"
  then show ?thesis using U2_write_a by (simp add: led_time_inv_write_a)
next
  case Update_leds
  assume "led_time_inv s"
  then show ?thesis using Update_leds by (simp add: led_time_inv_update_leds)
next
  case Machine_reset
  assume "led_time_inv s"
  then have "length (m_led_time s) = 6" by (simp add: led_time_inv_def)
  then show ?thesis using Machine_reset by (simp add: led_time_inv_reset)
qed (simp_all add: led_time_inv_def kim1_u2_read_a_def kim1_u2_read_b_def
      kim1_u2_write_b_def kim1_cassette_input_def missile_w_def missile_r_def Let_def)

lemma led_time_inv_run: "led_time_inv s \<Longrightarrow> led_time_inv (run es s)"
  by (induction es arbitrary: s) (simp_all add: led_time_inv_step)

text \<open>
  Claim C9. Every digit age counter always holds a value in 0..15: this holds after
  \<open>machine_reset\<close>, every operation preserves it, the operations other than the port-A
  write, the LED ticker and the reset leave the counters as they are, and so it holds in
  every state reached from a reset.
\<close>

theorem led_time_in_range:
  "(length (m_led_time s0) = 6 \<longrightarrow> led_time_inv (machine_reset s0)) \<and>
   (led_time_inv s \<longrightarrow> led_time_inv (step e s)) \<and>
   ((\<forall>data. e \<noteq> U2_write_a data) \<and> e \<noteq> Update_leds \<and> e \<noteq> Machine_reset \<longrightarrow>
      m_led_time (step e s) = m_led_time s) \<and>
   (length (m_led_time s0) = 6 \<longrightarrow> led_time_inv (run es (machine_reset s0)))"
  by (simp add: led_time_inv_reset led_time_inv_step led_time_inv_run step_led_time_other)

theorem led_time_in_range_witness:
  "length (m_led_time st0) = 6 \<and>
   led_time_inv (machine_reset st0) \<and>
   led_time_inv (st0\<lparr>m_u2_port_b := 0x0C, m_led_time := [3, 0, 15, 0, 0, 1]\<rparr>) \<and>
   led_time_inv (step Update_leds
     (st0\<lparr>m_u2_port_b := 0x0C, m_led_time := [3, 0, 15, 0, 0, 1]\<rparr>)) \<and>
   led_time_inv (step (U2_write_a 0xFF)
     (st0\<lparr>m_u2_port_b := 0x0C, m_led_time := [3, 0, 15, 0, 0, 1]\<rparr>)) \<and>
   m_led_time (step (Cassette_input 1)
     (st0\<lparr>m_u2_port_b := 0x0C, m_led_time := [3, 0, 15, 0, 0, 1]\<rparr>)) = [3, 0, 15, 0, 0, 1] \<and>
   led_time_inv (run [U2_write_b 0x0C, U2_write_a 0xFF, Update_leds, Cassette_input 1]
     (machine_reset st0))"
proof -
  let ?s = "st0\<lparr>m_u2_port_b := 0x0C, m_led_time := [3, 0, 15, 0, 0, 1]\<rparr>"
  let ?es = "[U2_write_b 0x0C, U2_write_a 0xFF, Update_leds, Cassette_input 1]"
  have h1: "length (m_led_time st0) = 6" by (simp add: st0_def)
  have h2: "led_time_inv ?s" by (simp add: led_time_inv_def st0_def)
  have h3: "(\<forall>data. Cassette_input 1 \<noteq> U2_write_a data) \<and> Cassette_input 1 \<noteq> Update_leds \<and>
      Cassette_input 1 \<noteq> Machine_reset" by simp
  have m: "m_led_time ?s = [3, 0, 15, 0, 0, 1]" by simp
  show ?thesis
    using led_time_in_range [of st0 ?s Update_leds ?es]
      led_time_in_range [of st0 ?s "U2_write_a 0xFF" ?es]
      led_time_in_range [of st0 ?s "Cassette_input 1" ?es] h1 h2 h3 m
    by metis
qed

text \<open>Bit 7 of the value read is the complement of bit 7 of the tone output; the rest is set.\<close>

lemma tone_read_two_valued:
  "(0x7F :: u8) OR (x XOR 0x80) = (if bit x 7 then 0x7F else 0xFF)"
proof (rule bit_word_eqI)
  fix n assume n: "n < LENGTH(8)"
  have a: "(0x7F :: u8) = mask 7" by (simp add: mask_eq_exp_minus_1)
  have c: "(0xFF :: u8) = mask 8" by (simp add: mask_eq_exp_minus_1)
  have b: "bit (0x80 :: u8) n \<longleftrightarrow> n = 7"
    using bit_exp_iff [where ?'a = "8 word", of 7 n] by auto
  show "bit ((0x7F :: u8) OR (x XOR 0x80)) n = bit (if bit x 7 then 0x7F else 0xFF :: u8) n"
    unfolding a c using b n by (auto simp add: bit_simps)
qed

lemma tone_step:
  "m_311_output s = 0 \<or> m_311_output s = 0x80 \<Longrightarrow>
   m_311_output (step e s) = 0 \<or> m_311_output (step e s) = 0x80"
proof (cases e)
  case Update_leds
  obtain xs where "snd (kim1_update_leds s) = s\<lparr>m_led_time := xs\<rparr>"
    using update_leds_frame [of s] by auto
  moreover assume "m_311_output s = 0 \<or> m_311_output s = 0x80"
  ultimately show ?thesis using Update_leds by simp
next
  case Machine_reset
  then show ?thesis by (simp add: machine_reset_def)
qed (auto simp add: kim1_u2_read_a_def kim1_u2_write_a_def kim1_u2_read_b_def
      kim1_u2_write_b_def kim1_cassette_input_def missile_w_def missile_r_def Let_def)

lemma tone_run:
  "m_311_output s = 0 \<or> m_311_output s = 0x80 \<Longrightarrow>
   m_311_output (run es s) = 0 \<or> m_311_output (run es s) = 0x80"
proof (induction es arbitrary: s)
  case Nil
  then show ?case by simp
next
  case (Cons e es)
  from Cons.prems have "m_311_output (step e s) = 0 \<or> m_311_output (step e s) = 0x80"
    by (rule tone_step)
  then show ?case using Cons.IH [of "step e s"] by simp
qed

text \<open>
  Claim C10. In every state reached from a reset the tone output is 0 or \<open>0x80\<close>; and the
  port-B read callback returns \<open>0x7F\<close> or \<open>0xFF\<close>, for every state and every port-B
  output value echoed by the adapter.
\<close>

theorem tone_output_two_valued:
  "(m_311_output (run es (machine_reset s0)) = 0 \<or>
    m_311_output (run es (machine_reset s0)) = 0x80) \<and>
   (fst (kim1_u2_read_b pb s) = 0x7F \<or> fst (kim1_u2_read_b pb s) = 0xFF)"
proof -
  have "m_311_output (machine_reset s0) = 0" by (simp add: machine_reset_def)
  then have "m_311_output (run es (machine_reset s0)) = 0 \<or>
    m_311_output (run es (machine_reset s0)) = 0x80"
    by (intro tone_run) simp
  moreover have "fst (kim1_u2_read_b pb s) = 0x7F \<or> fst (kim1_u2_read_b pb s) = 0xFF"
    by (simp add: kim1_u2_read_b_def tone_read_two_valued)
  ultimately show ?thesis by simp
qed

theorem tone_output_two_valued_witness:
  "m_311_output (run [Cassette_input 1, Cassette_input 0] (machine_reset st0)) = 0x80 \<and>
   fst (kim1_u2_read_b 0 (run [Cassette_input 1, Cassette_input 0] (machine_reset st0))) = 0x7F"
  using tone_output_two_valued [of "[Cassette_input 1, Cassette_input 0]" st0 0
    "run [Cassette_input 1, Cassette_input 0] (machine_reset st0)"]
  by (simp add: kim1_cassette_input_def kim1_u2_read_b_def machine_reset_def st0_def)

end
